theory Spec2Isabelle
  imports Main "HOL-Library.Sublist"
begin

section \<open>The analytics aggregation of \<open>netlify/functions/analytics-data.js\<close>\<close>

text \<open>
  The serverless function fetches six upstream resources and feeds them to seven
  aggregators. The embedding follows the source function by function and keeps its
  names. Payloads are typed as the data model of the specification describes them;
  every property that the source reads defensively (\<open>?.\<close>, \<open>||\<close>) is an
  \<open>option\<close>, so that an absent property and an empty string are both inputs of
  the model. Counters are natural numbers, time values are integers (milliseconds
  since the epoch), strings are lists of characters.
\<close>

subsection \<open>Strings and truthiness\<close>

text \<open>\<open>String.prototype.includes\<close>: the argument occurs as a contiguous substring.\<close>

fun includes_str :: "string \<Rightarrow> string \<Rightarrow> bool" where
  "includes_str [] sub = (sub = [])"
| "includes_str (c # cs) sub = (prefix sub (c # cs) \<or> includes_str cs sub)"

text \<open>
  A property holding a string is truthy when it is present and not the empty string;
  \<open>v || d\<close> yields \<open>d\<close> for an absent and for an empty \<open>v\<close>.
\<close>

definition truthy :: "string option \<Rightarrow> bool" where
  "truthy v = (case v of None \<Rightarrow> False | Some s \<Rightarrow> s \<noteq> [])"

definition orElse :: "string option \<Rightarrow> string \<Rightarrow> string" where
  "orElse v d = (case v of None \<Rightarrow> d | Some s \<Rightarrow> if s = [] then d else s)"

fun showNat :: "nat \<Rightarrow> string" where
  "showNat n =
     (if n < 10 then [''0123456789'' ! n]
      else showNat (n div 10) @ [''0123456789'' ! (n mod 10)])"

declare showNat.simps [simp del]

subsection \<open>Dates\<close>

text \<open>
  A \<open>Date\<close> is its time value. The local time zone is taken to be UTC, as on the
  serverless runtime, so a calendar day is \<open>msPerDay\<close> milliseconds and day \<open>n\<close>
  counts from 1 January 1970. \<open>civil\<close> is the proleptic Gregorian calendar: year,
  month (1 to 12) and day of the month of a day number.
\<close>

definition msPerDay :: int where
  "msPerDay = 86400000"

definition dayOf :: "int \<Rightarrow> int" where
  "dayOf t = t div msPerDay"

definition civil :: "int \<Rightarrow> int \<times> int \<times> int" where
  "civil n =
     (let z = n + 719468;
          era = z div 146097;
          doe = z mod 146097;
          yoe = (doe - doe div 1460 + doe div 36524 - doe div 146096) div 365;
          doy = doe - (365 * yoe + yoe div 4 - yoe div 100);
          mp = (5 * doy + 2) div 153;
          d = doy - (153 * mp + 2) div 5 + 1;
          m = (if mp < 10 then mp + 3 else mp - 9);
          y = yoe + era * 400 + (if m \<le> 2 then 1 else 0)
      in (y, m, d))"

text \<open>
  Within one call of an aggregator the clock is taken to stand still: every
  \<open>new Date()\<close> and \<open>Date.now()\<close> of the call reads the same instant \<open>now\<close>.
  Only \<open>calculateConnectionsGrowth\<close>, which compares two readings with each other,
  takes both.
\<close>

text \<open>\<open>getDate()\<close> is the day of the month; \<open>setDate(n)\<close> moves to day \<open>n\<close>
  counted from the first of the current month (also below 1 and beyond the month's
  end) and keeps the time of day.\<close>

definition getDate :: "int \<Rightarrow> int" where
  "getDate t = (case civil (dayOf t) of (y, m, d) \<Rightarrow> d)"

definition setDate :: "int \<Rightarrow> int \<Rightarrow> int" where
  "setDate t n = t + (n - getDate t) * msPerDay"

definition monthShort :: "int \<Rightarrow> string" where
  "monthShort m =
     [''Jan'', ''Feb'', ''Mar'', ''Apr'', ''May'', ''Jun'',
      ''Jul'', ''Aug'', ''Sep'', ''Oct'', ''Nov'', ''Dec''] ! nat (m - 1)"

text \<open>\<open>toLocaleDateString('en-US', { month: 'short', day: 'numeric' })\<close>, for
  instance \<open>Nov 2\<close>: the label carries no year.\<close>

definition toShortDate :: "int \<Rightarrow> string" where
  "toShortDate t =
     (case civil (dayOf t) of (y, m, d) \<Rightarrow> monthShort m @ '' '' @ showNat (nat d))"

text \<open>
  \<open>toLocaleDateString()\<close> without arguments prints month, day and year, so two
  dates print alike exactly when they fall on the same calendar day. The model keeps
  the day number in place of that string, and \<open>parseLocaleDate\<close> is
  \<open>new Date(s)\<close> on such a string: midnight of that day.
\<close>

definition toLocaleDateString :: "int \<Rightarrow> int" where
  "toLocaleDateString t = dayOf t"

definition parseLocaleDate :: "int \<Rightarrow> int" where
  "parseLocaleDate s = s * msPerDay"

text \<open>The range selector: \<open>timeRange === "7d" ? 7 : timeRange === "30d" ? 30 : 90\<close>.\<close>

definition rangeDays :: "string \<Rightarrow> nat" where
  "rangeDays timeRange =
     (if timeRange = ''7d'' then 7 else if timeRange = ''30d'' then 30 else 90)"

subsection \<open>Objects with string keys\<close>

text \<open>
  An object used as a dictionary is the list of its own properties in creation order.
  Assigning to an existing key keeps its place, a new key goes to the end.
  \<open>Object.entries\<close> and \<open>Object.values\<close> enumerate the keys that are array
  indices (canonical decimal numerals below \<open>2^32 - 1\<close>) first, in ascending numeric
  order, and then the other keys in creation order. Keys are assumed not to name a
  property inherited from \<open>Object.prototype\<close>.
\<close>

type_synonym 'v jsobject = "(string \<times> 'v) list"

definition getProp :: "'v jsobject \<Rightarrow> string \<Rightarrow> 'v option" where
  "getProp obj k = map_of obj k"

definition setProp :: "'v jsobject \<Rightarrow> string \<Rightarrow> 'v \<Rightarrow> 'v jsobject" where
  "setProp obj k v =
     (if k \<in> set (map fst obj)
      then map (\<lambda>(k', v'). if k' = k then (k', v) else (k', v')) obj
      else obj @ [(k, v)])"

definition isDigit :: "char \<Rightarrow> bool" where
  "isDigit c = (c \<in> set ''0123456789'')"

definition digitVal :: "char \<Rightarrow> int" where
  "digitVal c = of_char c - 48"

definition numVal :: "string \<Rightarrow> int" where
  "numVal s = foldl (\<lambda>n c. 10 * n + digitVal c) 0 s"

definition isArrayIndex :: "string \<Rightarrow> bool" where
  "isArrayIndex s =
     (s \<noteq> [] \<and> list_all isDigit s \<and> (length s = 1 \<or> hd s \<noteq> CHR ''0'')
      \<and> numVal s < 4294967295)"

definition objectEntries :: "'v jsobject \<Rightarrow> (string \<times> 'v) list" where
  "objectEntries obj =
     sort_key (\<lambda>(k, v). numVal k) (filter (\<lambda>(k, v). isArrayIndex k) obj)
     @ filter (\<lambda>(k, v). \<not> isArrayIndex k) obj"

definition objectValues :: "'v jsobject \<Rightarrow> 'v list" where
  "objectValues obj = map snd (objectEntries obj)"

text \<open>\<open>counts[k] = (counts[k] || 0) + 1\<close>, and \<open>counts[k]++\<close> on a key that
  exists.\<close>

definition bump :: "nat jsobject \<Rightarrow> string \<Rightarrow> nat jsobject" where
  "bump counts k = setProp counts k ((case getProp counts k of None \<Rightarrow> 0 | Some n \<Rightarrow> n) + 1)"

text \<open>\<open>.sort(([, a], [, b]) => b - a).slice(0, 10)\<close>: a stable sort, largest
  count first, then the first ten.\<close>

definition sortDescending :: "('a \<Rightarrow> nat) \<Rightarrow> 'a list \<Rightarrow> 'a list" where
  "sortDescending count xs = sort_key (\<lambda>x. - int (count x)) xs"

definition topTen :: "(string \<times> nat) list \<Rightarrow> (string \<times> nat) list" where
  "topTen es = take 10 (sortDescending snd es)"

subsection \<open>Upstream payloads\<close>

record media_item =
  mediaType :: "string option"

record share_commentary =
  text' :: "string option"

record share_content =
  media :: "media_item list option"
  shareCommentary :: "share_commentary option"

text \<open>\<open>specificContent\<close> is read at its key \<open>com.linkedin.ugc.ShareContent\<close> only.\<close>

record specific_content =
  ShareContent :: "share_content option"

record activity_data =
  object :: "string option"
  specificContent :: "specific_content option"

record activity_event =
  resourceName :: string
  method' :: string
  capturedAt :: int
  actor :: "string option"
  owner :: "string option"
  resourceId :: string
  activity :: "activity_data option"

record changelog =
  elements :: "activity_event list option"

text \<open>A snapshot is read at \<open>elements[0].snapshotData\<close>. A connection row carries its
  connect date under one of two keys; a share row its commentary.\<close>

record connection =
  Connected_On :: "string option"
  connectedOn :: "string option"
  Industry :: "string option"
  Position :: "string option"
  Location :: "string option"

record share_row =
  ShareCommentary :: "string option"

record 'row snapshot_element =
  snapshotData :: "'row list option"

record 'row snapshot =
  snapshotElements :: "'row snapshot_element list option"

text \<open>\<open>changelogData?.elements || []\<close> and
  \<open>data?.elements?.[0]?.snapshotData || []\<close>.\<close>

definition changelogElements :: "changelog option \<Rightarrow> activity_event list" where
  "changelogElements changelogData =
     (case changelogData of None \<Rightarrow> []
      | Some c \<Rightarrow> (case elements c of None \<Rightarrow> [] | Some es \<Rightarrow> es))"

definition snapshotRows :: "'row snapshot option \<Rightarrow> 'row list" where
  "snapshotRows snapshotData' =
     (case snapshotData' of None \<Rightarrow> []
      | Some s \<Rightarrow> (case snapshotElements s of None \<Rightarrow> [] | Some [] \<Rightarrow> []
          | Some (e # es) \<Rightarrow> (case snapshotData e of None \<Rightarrow> [] | Some rows \<Rightarrow> rows)))"

definition isCreate :: "string \<Rightarrow> activity_event \<Rightarrow> bool" where
  "isCreate name e = (resourceName e = name \<and> method' e = ''CREATE'')"

text \<open>\<open>post.activity?.specificContent?.["com.linkedin.ugc.ShareContent"]\<close> and
  below it \<open>shareCommentary?.text\<close>.\<close>

definition shareContentOf :: "activity_event \<Rightarrow> share_content option" where
  "shareContentOf post =
     (case activity post of None \<Rightarrow> None
      | Some a \<Rightarrow> (case specificContent a of None \<Rightarrow> None | Some sc \<Rightarrow> ShareContent sc))"

definition commentaryText :: "share_content option \<Rightarrow> string option" where
  "commentaryText content' =
     (case content' of None \<Rightarrow> None
      | Some c \<Rightarrow> (case shareCommentary c of None \<Rightarrow> None | Some sc \<Rightarrow> text' sc))"

subsection \<open>calculatePostsEngagementsTrend\<close>

record day_bucket =
  date :: string
  posts :: nat
  likes :: nat
  comments :: nat
  shares :: nat

text \<open>The first loop, \<open>for (let i = days - 1; i >= 0; i--)\<close>, pushes the bucket
  of the day \<open>i\<close> days before \<open>now\<close>, all counters zero. The recursion is on the
  number of days still to push, which is \<open>i + 1\<close>.\<close>

primrec trendDateRange :: "int \<Rightarrow> nat \<Rightarrow> day_bucket list" where
  "trendDateRange now 0 = []"
| "trendDateRange now (Suc i) =
     \<lparr>date = toShortDate (setDate now (getDate now - int i)),
      posts = 0, likes = 0, comments = 0, shares = 0\<rparr>
     # trendDateRange now i"

text \<open>\<open>Array.prototype.find\<close> returns the first element that satisfies the predicate;
  the loop body then updates that element in place, so the model finds its index.\<close>

fun findIndex :: "('a \<Rightarrow> bool) \<Rightarrow> 'a list \<Rightarrow> nat option" where
  "findIndex P [] = None"
| "findIndex P (x # xs) = (if P x then Some 0 else map_option Suc (findIndex P xs))"

definition countActivity :: "day_bucket list \<Rightarrow> activity_event \<Rightarrow> day_bucket list" where
  "countActivity dateRange element =
     (let elementDate = toShortDate (capturedAt element) in
      case findIndex (\<lambda>day. date day = elementDate) dateRange of
        None \<Rightarrow> dateRange
      | Some k \<Rightarrow>
          (let dayData = dateRange ! k in
           if resourceName element = ''ugcPosts'' \<and> method' element = ''CREATE''
           then dateRange[k := dayData\<lparr>posts := posts dayData + 1\<rparr>]
           else if resourceName element = ''socialActions/likes'' \<and> method' element = ''CREATE''
           then dateRange[k := dayData\<lparr>likes := likes dayData + 1\<rparr>]
           else if resourceName element = ''socialActions/comments'' \<and> method' element = ''CREATE''
           then dateRange[k := dayData\<lparr>comments := comments dayData + 1\<rparr>]
           else if resourceName element = ''socialActions/shares'' \<and> method' element = ''CREATE''
           then dateRange[k := dayData\<lparr>shares := shares dayData + 1\<rparr>]
           else dateRange))"

definition trendBuckets :: "changelog option \<Rightarrow> string \<Rightarrow> int \<Rightarrow> day_bucket list" where
  "trendBuckets changelogData timeRange now =
     foldl countActivity (trendDateRange now (rangeDays timeRange))
       (changelogElements changelogData)"

text \<open>The returned objects are written as the object literal of the final
  \<open>map\<close> gives them: property names with their values.\<close>

datatype jsvalue = Str string | Num nat

definition trendPoint :: "day_bucket \<Rightarrow> jsvalue jsobject" where
  "trendPoint day =
     [(''date'', Str (date day)),
      (''posts'', Num (posts day)),
      (''likes'', Num (likes day)),
      (''comments'', Num (comments day)),
      (''totalEngagement'', Num (likes day + comments day + shares day))]"

definition calculatePostsEngagementsTrend ::
    "changelog option \<Rightarrow> string \<Rightarrow> int \<Rightarrow> jsvalue jsobject list" where
  "calculatePostsEngagementsTrend changelogData timeRange now =
     map trendPoint (trendBuckets changelogData timeRange now)"

subsection \<open>calculateConnectionsGrowth\<close>

text \<open>
  The connect date of a row is \<open>conn["Connected On"] || conn.connectedOn\<close>, a string
  that \<open>new Date\<close> parses. How the runtime reads a free-form date string is not
  part of this program: \<open>parseDate\<close> is a parameter, \<open>None\<close> for a string
  that gives an invalid date. An invalid date has the time value \<open>NaN\<close> and prints
  as no calendar day.
\<close>

definition connectDate :: "connection \<Rightarrow> string option" where
  "connectDate conn = (if truthy (Connected_On conn) then Connected_On conn else connectedOn conn)"

definition connectTime :: "(string \<Rightarrow> int option) \<Rightarrow> connection \<Rightarrow> int option" where
  "connectTime parseDate conn =
     (case connectDate conn of None \<Rightarrow> None | Some s \<Rightarrow> parseDate s)"

text \<open>The rows are sorted by time value before the loop; the comparator yields
  \<open>NaN\<close> on an invalid date, which the sort reads as equal, so such rows get the key
  0 here. The loop below only counts rows per day.\<close>

definition sortedConnections :: "(string \<Rightarrow> int option) \<Rightarrow> connection list \<Rightarrow> connection list" where
  "sortedConnections parseDate connections =
     sort_key (\<lambda>conn. case connectTime parseDate conn of None \<Rightarrow> 0 | Some t \<Rightarrow> t)
       (filter (\<lambda>conn. truthy (connectDate conn)) connections)"

record growth_point =
  growthDate :: string
  totalConnections :: nat
  newConnections :: nat

text \<open>\<open>for (let d = new Date(startDate); d <= endDate; d.setDate(d.getDate() + 1))\<close>\<close>

function growthLoop ::
    "(string \<Rightarrow> int option) \<Rightarrow> connection list \<Rightarrow> int \<Rightarrow> int \<Rightarrow> nat \<Rightarrow> growth_point list" where
  "growthLoop parseDate conns d endDate cumulativeCount =
     (if d \<le> endDate then
        (let dateStr = toLocaleDateString d;
             connectionsOnDate = length (filter (\<lambda>conn.
                 map_option toLocaleDateString (connectTime parseDate conn) = Some dateStr) conns);
             cumulativeCount' = cumulativeCount + connectionsOnDate
         in \<lparr>growthDate = toShortDate d, totalConnections = cumulativeCount',
              newConnections = connectionsOnDate\<rparr>
            # growthLoop parseDate conns (setDate d (getDate d + 1)) endDate cumulativeCount')
      else [])"
  by pat_completeness auto
termination
  by (relation "measure (\<lambda>(parseDate, conns, d, endDate, c). nat (endDate - d + 1))")
     (auto simp: setDate_def msPerDay_def)

declare growthLoop.simps [simp del]

text \<open>\<open>endDate\<close> and \<open>startDate\<close> are two readings of the clock, \<open>endNow\<close> first.
  The loop compares the dates it derives from the two, so they are kept apart.\<close>

definition calculateConnectionsGrowth ::
    "(string \<Rightarrow> int option) \<Rightarrow> connection snapshot option \<Rightarrow> string \<Rightarrow> int \<Rightarrow> int
      \<Rightarrow> growth_point list" where
  "calculateConnectionsGrowth parseDate connectionsData timeRange endNow startNow =
     (let connections = snapshotRows connectionsData;
          conns = sortedConnections parseDate connections;
          days = rangeDays timeRange;
          endDate = endNow;
          startDate = setDate startNow (getDate endDate - int days)
      in growthLoop parseDate conns startDate endDate 0)"

subsection \<open>calculatePostTypesBreakdown\<close>

definition userPosts :: "changelog option \<Rightarrow> activity_event list" where
  "userPosts changelogData = filter (isCreate ''ugcPosts'') (changelogElements changelogData)"

definition initialTypeCounts :: "nat jsobject" where
  "initialTypeCounts =
     [(''Text Only'', 0), (''Image'', 0), (''Video'', 0), (''Article'', 0), (''External Link'', 0)]"

text \<open>The body of \<open>posts.forEach\<close>: \<open>media && media.length > 0\<close> holds for a
  present, non-empty array.\<close>

definition countPostType :: "nat jsobject \<Rightarrow> activity_event \<Rightarrow> nat jsobject" where
  "countPostType typeCounts post =
     (let content' = shareContentOf post;
          media' = (case content' of None \<Rightarrow> None | Some c \<Rightarrow> media c)
      in case media' of
           Some (m # ms) \<Rightarrow>
             (let mediaType' = orElse (mediaType m) ''IMAGE'' in
              if includes_str mediaType' ''VIDEO'' then bump typeCounts ''Video''
              else if includes_str mediaType' ''IMAGE'' then bump typeCounts ''Image''
              else bump typeCounts ''External Link'')
         | _ \<Rightarrow>
             (if (case commentaryText content' of None \<Rightarrow> False
                  | Some t \<Rightarrow> includes_str t ''http'')
              then bump typeCounts ''External Link''
              else bump typeCounts ''Text Only''))"

definition calculatePostTypesBreakdown :: "changelog option \<Rightarrow> (string \<times> nat) list" where
  "calculatePostTypesBreakdown changelogData =
     filter (\<lambda>(name, count). count > 0)
       (objectEntries (foldl countPostType initialTypeCounts (userPosts changelogData)))"

subsection \<open>calculateTopHashtags\<close>

text \<open>\<open>\w\<close> is a letter, a digit or the underscore.\<close>

definition isWordChar :: "char \<Rightarrow> bool" where
  "isWordChar c =
     (c \<in> set ''abcdefghijklmnopqrstuvwxyzABCDEFGHIJKLMNOPQRSTUVWXYZ0123456789_'')"

text \<open>\<open>content.match(/#[\w]+/g) || []\<close>: the matches from left to right, each a
  \<open>#\<close> with the longest run of word characters after it, the search resuming
  behind the match.\<close>

function matchHashtags :: "string \<Rightarrow> string list" where
  "matchHashtags [] = []"
| "matchHashtags (c # cs) =
     (if c = CHR ''#'' \<and> takeWhile isWordChar cs \<noteq> []
      then (c # takeWhile isWordChar cs) # matchHashtags (dropWhile isWordChar cs)
      else matchHashtags cs)"
  by pat_completeness auto
termination
  by (relation "measure length") (auto simp: length_dropWhile_le less_Suc_eq_le)

definition countHashtags :: "nat jsobject \<Rightarrow> string \<Rightarrow> nat jsobject" where
  "countHashtags counts content' = foldl bump counts (matchHashtags content')"

definition snapshotCommentary :: "share_row \<Rightarrow> string" where
  "snapshotCommentary post = orElse (ShareCommentary post) []"

definition changelogCommentary :: "activity_event \<Rightarrow> string" where
  "changelogCommentary post = orElse (commentaryText (shareContentOf post)) []"

definition hashtagCounts ::
    "share_row snapshot option \<Rightarrow> changelog option \<Rightarrow> nat jsobject" where
  "hashtagCounts postsData changelogData =
     foldl countHashtags
       (foldl countHashtags [] (map snapshotCommentary (snapshotRows postsData)))
       (map changelogCommentary (userPosts changelogData))"

definition calculateTopHashtags ::
    "share_row snapshot option \<Rightarrow> changelog option \<Rightarrow> (string \<times> nat) list" where
  "calculateTopHashtags postsData changelogData =
     topTen (objectEntries (hashtagCounts postsData changelogData))"

subsection \<open>calculateEngagementPerPost\<close>

record post_counters =
  postId :: string
  content :: string
  postLikes :: nat
  postComments :: nat
  postShares :: nat
  createdAt :: int

record post_engagement = post_counters +
  totalEngagement :: nat

definition seedPost :: "post_counters jsobject \<Rightarrow> activity_event \<Rightarrow> post_counters jsobject" where
  "seedPost engagementMap post =
     setProp engagementMap (resourceId post)
       \<lparr>postId = resourceId post,
        content = orElse (commentaryText (shareContentOf post)) ''Post content'',
        postLikes = 0, postComments = 0, postShares = 0,
        createdAt = capturedAt post\<rparr>"

text \<open>The second loop: \<open>postId && engagementMap[postId]\<close> asks for a non-empty
  identifier that is a key of the map.\<close>

definition countEngagement ::
    "post_counters jsobject \<Rightarrow> activity_event \<Rightarrow> post_counters jsobject" where
  "countEngagement engagementMap element =
     (let postId' = (case activity element of None \<Rightarrow> None | Some a \<Rightarrow> object a) in
      case postId' of
        None \<Rightarrow> engagementMap
      | Some pid \<Rightarrow>
          (case (if pid = [] then None else getProp engagementMap pid) of
             None \<Rightarrow> engagementMap
           | Some p \<Rightarrow>
               if resourceName element = ''socialActions/likes'' \<and> method' element = ''CREATE''
               then setProp engagementMap pid (p\<lparr>postLikes := postLikes p + 1\<rparr>)
               else if resourceName element = ''socialActions/comments'' \<and> method' element = ''CREATE''
               then setProp engagementMap pid (p\<lparr>postComments := postComments p + 1\<rparr>)
               else if resourceName element = ''socialActions/shares'' \<and> method' element = ''CREATE''
               then setProp engagementMap pid (p\<lparr>postShares := postShares p + 1\<rparr>)
               else engagementMap))"

definition engagementMapOf :: "changelog option \<Rightarrow> post_counters jsobject" where
  "engagementMapOf changelogData =
     foldl countEngagement (foldl seedPost [] (userPosts changelogData))
       (changelogElements changelogData)"

text \<open>\<open>{...post, totalEngagement: ..., content: post.content.substring(0, 50) + ...}\<close>\<close>

definition summarise :: "post_counters \<Rightarrow> post_engagement" where
  "summarise post =
     \<lparr>postId = postId post,
      content = take 50 (content post) @ (if length (content post) > 50 then ''...'' else []),
      postLikes = postLikes post, postComments = postComments post,
      postShares = postShares post, createdAt = createdAt post,
      totalEngagement = postLikes post + postComments post + postShares post\<rparr>"

definition calculateEngagementPerPost :: "changelog option \<Rightarrow> post_engagement list" where
  "calculateEngagementPerPost changelogData =
     take 10 (sortDescending totalEngagement
       (map summarise (objectValues (engagementMapOf changelogData))))"

subsection \<open>calculateMessagesSentReceived\<close>

record message_bucket =
  messageDay :: int
  sent :: nat
  received :: nat

record message_point =
  messageDate :: string
  messagesSent :: nat
  messagesReceived :: nat

text \<open>\<open>elements.find(e => e.owner)?.owner\<close>\<close>

definition currentUserId :: "activity_event list \<Rightarrow> string option" where
  "currentUserId es =
     (case List.find (\<lambda>e. truthy (owner e)) es of None \<Rightarrow> None | Some e \<Rightarrow> owner e)"

primrec messageDays :: "int \<Rightarrow> nat \<Rightarrow> message_bucket list" where
  "messageDays now 0 = []"
| "messageDays now (Suc i) =
     \<lparr>messageDay = toLocaleDateString (setDate now (getDate now - int i)),
      sent = 0, received = 0\<rparr>
     # messageDays now i"

text \<open>\<open>for (let i = 29; i >= 0; i--)\<close>\<close>

definition messageDateRange :: "int \<Rightarrow> message_bucket list" where
  "messageDateRange now = messageDays now 30"

definition countMessage ::
    "string option \<Rightarrow> message_bucket list \<Rightarrow> activity_event \<Rightarrow> message_bucket list" where
  "countMessage userId dateRange message =
     (let messageDate' = toLocaleDateString (capturedAt message) in
      case findIndex (\<lambda>day. messageDay day = messageDate') dateRange of
        None \<Rightarrow> dateRange
      | Some k \<Rightarrow>
          (let dayData = dateRange ! k in
           if actor message = userId
           then dateRange[k := dayData\<lparr>sent := sent dayData + 1\<rparr>]
           else dateRange[k := dayData\<lparr>received := received dayData + 1\<rparr>]))"

definition recentMessages :: "activity_event list \<Rightarrow> int \<Rightarrow> activity_event list" where
  "recentMessages es now =
     (let last30Days = now - 30 * 24 * 60 * 60 * 1000 in
      filter (\<lambda>e. resourceName e = ''messages'' \<and> capturedAt e \<ge> last30Days) es)"

definition messageBuckets :: "changelog option \<Rightarrow> int \<Rightarrow> message_bucket list" where
  "messageBuckets changelogData now =
     (let es = changelogElements changelogData in
      foldl (countMessage (currentUserId es)) (messageDateRange now) (recentMessages es now))"

definition messagePoint :: "message_bucket \<Rightarrow> message_point" where
  "messagePoint day =
     \<lparr>messageDate = toShortDate (parseLocaleDate (messageDay day)),
      messagesSent = sent day, messagesReceived = received day\<rparr>"

definition calculateMessagesSentReceived :: "changelog option \<Rightarrow> int \<Rightarrow> message_point list" where
  "calculateMessagesSentReceived changelogData now =
     map messagePoint (messageBuckets changelogData now)"

subsection \<open>calculateAudienceDistribution\<close>

record audience =
  industries :: "(string \<times> nat) list"
  positions :: "(string \<times> nat) list"
  locations :: "(string \<times> nat) list"

text \<open>The one loop over the connections fills three objects that do not depend on each
  other; \<open>tally\<close> is that loop for one of them.\<close>

definition tally :: "(connection \<Rightarrow> string option) \<Rightarrow> connection list \<Rightarrow> nat jsobject" where
  "tally field connections =
     foldl (\<lambda>counts conn. bump counts (orElse (field conn) ''Unknown'')) [] connections"

definition calculateAudienceDistribution :: "connection snapshot option \<Rightarrow> audience" where
  "calculateAudienceDistribution connectionsData =
     (let connections = snapshotRows connectionsData in
      \<lparr>industries = topTen (objectEntries (tally Industry connections)),
       positions = topTen (objectEntries (tally Position connections)),
       locations = topTen (objectEntries (tally Location connections))\<rparr>)"

subsection \<open>getScoreImpacts\<close>

record score_impact =
  description :: string
  impact :: string
  tips :: "string list"

definition getScoreImpacts :: "score_impact jsobject" where
  "getScoreImpacts =
     [(''profileCompleteness'',
       \<lparr>description = ''A complete profile increases visibility and credibility'',
        impact = ''Affects profile visibility and professional brand scores'',
        tips = [''Add a professional headline'', ''Complete work experience'',
                ''Add relevant skills'']\<rparr>),
      (''postingActivity'',
       \<lparr>description = ''Regular posting keeps you visible in your network's feed'',
        impact = ''Directly affects engagement quality and professional brand'',
        tips = [''Post 3-5 times per week'', ''Share industry insights'',
                ''Engage with others' content'']\<rparr>),
      (''engagementQuality'',
       \<lparr>description = ''High engagement indicates valuable content and strong network'',
        impact = ''Influences audience relevance and mutual interactions'',
        tips = [''Ask questions in posts'', ''Share personal experiences'',
                ''Respond to comments quickly'']\<rparr>),
      (''networkGrowth'',
       \<lparr>description = ''Growing your network expands your reach and opportunities'',
        impact = ''Affects audience relevance and engagement rate calculations'',
        tips = [''Connect with industry peers'', ''Attend virtual events'',
                ''Engage before connecting'']\<rparr>),
      (''audienceRelevance'',
       \<lparr>description = ''A relevant audience is more likely to engage with your content'',
        impact = ''Improves engagement rate and professional brand perception'',
        tips = [''Connect with industry professionals'', ''Join relevant groups'',
                ''Share industry-specific content'']\<rparr>),
      (''contentDiversity'',
       \<lparr>description = ''Varied content types keep your audience engaged'',
        impact = ''Enhances engagement quality and professional brand'',
        tips = [''Mix text, images, and videos'', ''Share articles and insights'',
                ''Use polls and questions'']\<rparr>),
      (''engagementRate'',
       \<lparr>description = ''High engagement relative to network size shows content quality'',
        impact = ''Key metric for LinkedIn algorithm and visibility'',
        tips = [''Post when audience is active'', ''Create conversation-starting content'',
                ''Use relevant hashtags'']\<rparr>),
      (''mutualInteractions'',
       \<lparr>description = ''Engaging with others builds relationships and visibility'',
        impact = ''Improves network growth and audience relevance'',
        tips = [''Like and comment on others' posts'', ''Share valuable content'',
                ''Start conversations'']\<rparr>),
      (''profileVisibility'',
       \<lparr>description = ''High visibility indicates strong personal brand'',
        impact = ''Affects all other scores through increased exposure'',
        tips = [''Optimize profile for search'', ''Use keywords in headline'',
                ''Stay active and consistent'']\<rparr>),
      (''professionalBrand'',
       \<lparr>description = ''Strong professional brand attracts the right opportunities'',
        impact = ''Influences all engagement and growth metrics'',
        tips = [''Define your expertise area'', ''Share thought leadership'',
                ''Maintain consistent messaging'']\<rparr>)]"

subsection \<open>fetchLinkedInData and handler\<close>

text \<open>
  What \<open>fetch\<close> does is the environment's: a function of the URL and the request
  headers. It rejects (as does a body that is not JSON), or it answers with the
  \<open>ok\<close> flag and the parsed body. Each endpoint is taken to answer in its own
  shape; the profile, skills and positions bodies are never inspected.
\<close>

datatype payload =
    ConnectionsData "connection snapshot"
  | PostsData "share_row snapshot"
  | ChangelogData changelog
  | OtherData

datatype fetch_outcome = Rejected | Response bool payload

type_synonym fetcher = "string \<Rightarrow> (string \<times> string) list \<Rightarrow> fetch_outcome"

text \<open>The query string holds \<open>domain\<close> when it is given and then the extra
  parameters, which the callers write as plain \<open>key=value\<close> text; percent-encoding
  is not modelled.\<close>

definition requestUrl :: "string \<Rightarrow> string option \<Rightarrow> string \<Rightarrow> string" where
  "requestUrl endpoint domain extraParams =
     (let params = (if truthy domain then [''domain='' @ orElse domain []] else [])
                   @ (if extraParams \<noteq> [] then [extraParams] else []);
          query = (case params of [] \<Rightarrow> [] | [a] \<Rightarrow> a | a # b # _ \<Rightarrow> a @ ''&'' @ b)
      in ''/.netlify/functions/'' @ endpoint @ (if query \<noteq> [] then ''?'' @ query else []))"

text \<open>\<open>fetchLinkedInData\<close> returns \<open>null\<close> for a rejected call and for a
  response that is not \<open>ok\<close>. Beside the result the model returns the URL it
  requested.\<close>

definition fetchLinkedInData ::
    "fetcher \<Rightarrow> string \<Rightarrow> string \<Rightarrow> string option \<Rightarrow> string \<Rightarrow> payload option \<times> string" where
  "fetchLinkedInData fetch authorization' endpoint domain extraParams =
     (let url = requestUrl endpoint domain extraParams in
      (case fetch url [(''Authorization'', authorization'), (''LinkedIn-Version'', ''202312'')] of
         Rejected \<Rightarrow> None
       | Response ok data \<Rightarrow> if \<not> ok then None else Some data,
       url))"

definition asConnections :: "payload option \<Rightarrow> connection snapshot option" where
  "asConnections p = (case p of Some (ConnectionsData c) \<Rightarrow> Some c | _ \<Rightarrow> None)"

definition asPosts :: "payload option \<Rightarrow> share_row snapshot option" where
  "asPosts p = (case p of Some (PostsData c) \<Rightarrow> Some c | _ \<Rightarrow> None)"

definition asChangelog :: "payload option \<Rightarrow> changelog option" where
  "asChangelog p = (case p of Some (ChangelogData c) \<Rightarrow> Some c | _ \<Rightarrow> None)"

record query_params =
  timeRange :: "string option"

record http_event =
  httpMethod :: string
  authorization :: "string option"
  queryStringParameters :: "query_params option"

record analytics =
  postsEngagementsTrend :: "jsvalue jsobject list"
  connectionsGrowth :: "growth_point list"
  postTypesBreakdown :: "(string \<times> nat) list"
  topHashtags :: "(string \<times> nat) list"
  engagementPerPost :: "post_engagement list"
  messagesSentReceived :: "message_point list"
  audienceDistribution :: audience
  scoreImpacts :: "score_impact jsobject"
  requestedRange :: string
  lastUpdated :: int

datatype response_body = AnalyticsBody analytics | ErrorBody string

record response =
  statusCode :: nat
  headers :: "(string \<times> string) list"
  body :: "response_body option"

text \<open>
  The handler returns its response and, for the model, the URLs it fetched, in order.
  \<open>now\<close> is the clock. With payloads typed as above no step of the \<open>try\<close>
  block raises, so the \<open>catch\<close> branch with status 500 has no counterpart here.
\<close>

definition handler ::
    "http_event \<Rightarrow> fetcher \<Rightarrow> (string \<Rightarrow> int option) \<Rightarrow> int \<Rightarrow> response \<times> string list" where
  "handler event fetch parseDate now =
     (if httpMethod event = ''OPTIONS'' then
        (\<lparr>statusCode = 200,
          headers = [(''Access-Control-Allow-Origin'', ''*''),
                     (''Access-Control-Allow-Headers'', ''Content-Type, Authorization''),
                     (''Access-Control-Allow-Methods'', ''GET, OPTIONS'')],
          body = None\<rparr>, [])
      else
        (let timeRange' =
               (case queryStringParameters event of None \<Rightarrow> ''30d''
                | Some q \<Rightarrow> (case timeRange q of None \<Rightarrow> ''30d'' | Some r \<Rightarrow> r))
         in
         if \<not> truthy (authorization event) then
           (\<lparr>statusCode = 401, headers = [],
             body = Some (ErrorBody ''No authorization token'')\<rparr>, [])
         else
           (let auth = orElse (authorization event) [];
                (profileData, u1) = fetchLinkedInData fetch auth ''linkedin-snapshot'' (Some ''PROFILE'') [];
                (connectionsData, u2) = fetchLinkedInData fetch auth ''linkedin-snapshot'' (Some ''CONNECTIONS'') [];
                (postsData, u3) = fetchLinkedInData fetch auth ''linkedin-snapshot'' (Some ''MEMBER_SHARE_INFO'') [];
                (changelogData, u4) = fetchLinkedInData fetch auth ''linkedin-changelog'' None ''count=200'';
                (skillsData, u5) = fetchLinkedInData fetch auth ''linkedin-snapshot'' (Some ''SKILLS'') [];
                (positionsData, u6) = fetchLinkedInData fetch auth ''linkedin-snapshot'' (Some ''POSITIONS'') [];
                result =
                  \<lparr>postsEngagementsTrend =
                     calculatePostsEngagementsTrend (asChangelog changelogData) timeRange' now,
                   connectionsGrowth =
                     calculateConnectionsGrowth parseDate (asConnections connectionsData) timeRange' now now,
                   postTypesBreakdown = calculatePostTypesBreakdown (asChangelog changelogData),
                   topHashtags = calculateTopHashtags (asPosts postsData) (asChangelog changelogData),
                   engagementPerPost = calculateEngagementPerPost (asChangelog changelogData),
                   messagesSentReceived = calculateMessagesSentReceived (asChangelog changelogData) now,
                   audienceDistribution = calculateAudienceDistribution (asConnections connectionsData),
                   scoreImpacts = getScoreImpacts,
                   requestedRange = timeRange',
                   lastUpdated = now\<rparr>
            in (\<lparr>statusCode = 200,
                 headers = [(''Content-Type'', ''application/json''),
                            (''Access-Control-Allow-Origin'', ''*''),
                            (''Access-Control-Allow-Headers'', ''Content-Type, Authorization'')],
                 body = Some (AnalyticsBody result)\<rparr>,
                [u1, u2, u3, u4, u5, u6]))))"

subsection \<open>The post-type rule, as a function of the post\<close>

text \<open>The rule as the specification words it: the declared type of the first media
  item is inspected as it is.\<close>

definition claimedCategory :: "activity_event \<Rightarrow> string" where
  "claimedCategory post =
     (case (case shareContentOf post of None \<Rightarrow> None | Some c \<Rightarrow> media c) of
        Some (m # ms) \<Rightarrow>
          (case mediaType m of
             None \<Rightarrow> ''External Link''
           | Some t \<Rightarrow> if includes_str t ''VIDEO'' then ''Video''
                      else if includes_str t ''IMAGE'' then ''Image''
                      else ''External Link'')
      | _ \<Rightarrow>
          (case commentaryText (shareContentOf post) of
             None \<Rightarrow> ''Text Only''
           | Some t \<Rightarrow> if includes_str t ''http'' then ''External Link'' else ''Text Only''))"

text \<open>The rule with the default of the source: a first media item without a
  declared type, or with an empty one, counts as \<open>IMAGE\<close>.\<close>

definition postCategory :: "activity_event \<Rightarrow> string" where
  "postCategory post =
     (case (case shareContentOf post of None \<Rightarrow> None | Some c \<Rightarrow> media c) of
        Some (m # ms) \<Rightarrow>
          (let t = orElse (mediaType m) ''IMAGE'' in
           if includes_str t ''VIDEO'' then ''Video''
           else if includes_str t ''IMAGE'' then ''Image''
           else ''External Link'')
      | _ \<Rightarrow>
          (case commentaryText (shareContentOf post) of
             None \<Rightarrow> ''Text Only''
           | Some t \<Rightarrow> if includes_str t ''http'' then ''External Link'' else ''Text Only''))"

definition postTypeNames :: "string list" where
  "postTypeNames = [''Text Only'', ''Image'', ''Video'', ''Article'', ''External Link'']"

subsection \<open>Ranked outputs, as the specification describes them\<close>

text \<open>The distinct elements of a list in the order of their first occurrence, and
  each of them with the number of its occurrences.\<close>

definition firstSeen :: "'a list \<Rightarrow> 'a list" where
  "firstSeen xs = rev (remdups (rev xs))"

definition firstSeenCounts :: "string list \<Rightarrow> (string \<times> nat) list" where
  "firstSeenCounts ks = map (\<lambda>k. (k, count_list ks k)) (firstSeen ks)"


text \<open>Every hashtag occurrence of the snapshot posts and of the changelog posts, in
  the order the source meets them.\<close>

definition allHashtags :: "share_row snapshot option \<Rightarrow> changelog option \<Rightarrow> string list" where
  "allHashtags postsData changelogData =
     concat (map (\<lambda>post. matchHashtags (snapshotCommentary post)) (snapshotRows postsData))
     @ concat (map (\<lambda>post. matchHashtags (changelogCommentary post)) (userPosts changelogData))"


subsection \<open>Day buckets, as the specification describes them\<close>

text \<open>The days of a range, oldest first, ending with the day of \<open>now\<close>; the bucket
  an event is counted in is the first one of the range that carries the event's day
  label.\<close>

definition rangeTimes :: "int \<Rightarrow> nat \<Rightarrow> int list" where
  "rangeTimes now days = map (\<lambda>i. now - int i * msPerDay) (rev [0..<days])"

definition trendBucketOf :: "int \<Rightarrow> nat \<Rightarrow> activity_event \<Rightarrow> nat option" where
  "trendBucketOf now days e =
     findIndex (\<lambda>label. label = toShortDate (capturedAt e)) (map toShortDate (rangeTimes now days))"

definition inBucket :: "int \<Rightarrow> nat \<Rightarrow> nat \<Rightarrow> string \<Rightarrow> activity_event \<Rightarrow> bool" where
  "inBucket now days k name e = (trendBucketOf now days e = Some k \<and> isCreate name e)"

definition countIn :: "int \<Rightarrow> nat \<Rightarrow> nat \<Rightarrow> string \<Rightarrow> activity_event list \<Rightarrow> nat" where
  "countIn now days k name es = length (filter (inBucket now days k name) es)"

subsection \<open>A sample request\<close>

text \<open>
  The scenario of the specification's testable properties: the clock stands at noon of
  2 November 2026 (day 20759); a post is created on 1 November and receives two likes
  and a share on 2 November.
\<close>

definition sampleNow :: int where
  "sampleNow = 20759 * 86400000 + 43200000"

definition sampleEvent :: "string \<Rightarrow> int \<Rightarrow> string \<Rightarrow> string option \<Rightarrow> activity_event" where
  "sampleEvent name t rid target =
     \<lparr>resourceName = name, method' = ''CREATE'', capturedAt = t,
      actor = Some ''urn:li:person:2'', owner = Some ''urn:li:person:1'', resourceId = rid,
      activity = Some \<lparr>object = target, specificContent = None\<rparr>\<rparr>"

definition sampleChangelog :: "changelog option" where
  "sampleChangelog =
     Some \<lparr>elements = Some
       [sampleEvent ''ugcPosts'' (20758 * 86400000 + 1000) ''urn:li:ugcPost:1'' None,
        sampleEvent ''socialActions/likes'' (20759 * 86400000 + 1000) ''urn:li:like:1''
          (Some ''urn:li:ugcPost:1''),
        sampleEvent ''socialActions/likes'' (20759 * 86400000 + 2000) ''urn:li:like:2''
          (Some ''urn:li:ugcPost:1''),
        sampleEvent ''socialActions/shares'' (20759 * 86400000 + 3000) ''urn:li:share:1''
          (Some ''urn:li:ugcPost:1'')]\<rparr>"

subsection \<open>Messages of a day\<close>







subsection \<open>Engagement of a post\<close>






subsection \<open>The results for empty input\<close>

definition zeroTrendPoint :: "int \<Rightarrow> jsvalue jsobject" where
  "zeroTrendPoint t =
     [(''date'', Str (toShortDate t)), (''posts'', Num 0), (''likes'', Num 0),
      (''comments'', Num 0), (''totalEngagement'', Num 0)]"

definition zeroGrowthPoint :: "int \<Rightarrow> growth_point" where
  "zeroGrowthPoint t = \<lparr>growthDate = toShortDate t, totalConnections = 0, newConnections = 0\<rparr>"

definition zeroMessagePoint :: "int \<Rightarrow> message_point" where
  "zeroMessagePoint t =
     \<lparr>messageDate = toShortDate (dayOf t * msPerDay), messagesSent = 0, messagesReceived = 0\<rparr>"

definition emptyAnalytics :: "string \<Rightarrow> int \<Rightarrow> analytics" where
  "emptyAnalytics selector now =
     \<lparr>postsEngagementsTrend = map zeroTrendPoint (rangeTimes now (rangeDays selector)),
      connectionsGrowth = map zeroGrowthPoint (rangeTimes now (rangeDays selector + 1)),
      postTypesBreakdown = [],
      topHashtags = [],
      engagementPerPost = [],
      messagesSentReceived = map zeroMessagePoint (rangeTimes now 30),
      audienceDistribution = \<lparr>industries = [], positions = [], locations = []\<rparr>,
      scoreImpacts = getScoreImpacts,
      requestedRange = selector,
      lastUpdated = now\<rparr>"

text \<open>The range the handler reads from the query string, \<open>30d\<close> when there is none.\<close>

definition requestedTimeRange :: "http_event \<Rightarrow> string" where
  "requestedTimeRange event =
     (case queryStringParameters event of None \<Rightarrow> ''30d''
      | Some q \<Rightarrow> (case timeRange q of None \<Rightarrow> ''30d'' | Some r \<Rightarrow> r))"

text \<open>A request with a bearer token and no query string, one without the header and one
  whose header is present but empty; an upstream that fails on every call.\<close>

definition sampleRequest :: http_event where
  "sampleRequest =
     \<lparr>httpMethod = ''GET'', authorization = Some ''Bearer token'', queryStringParameters = None\<rparr>"

definition anonymousRequest :: http_event where
  "anonymousRequest = \<lparr>httpMethod = ''GET'', authorization = None, queryStringParameters = None\<rparr>"

definition emptyTokenRequest :: http_event where
  "emptyTokenRequest =
     \<lparr>httpMethod = ''GET'', authorization = Some [], queryStringParameters = None\<rparr>"

definition failingFetch :: fetcher where
  "failingFetch url hdrs = Rejected"

section \<open>Objects: lookup, keys and enumeration\<close>


lemma getProp_setProp:
  "getProp (setProp obj k v) k' = (if k' = k then Some v else getProp obj k')"
proof (cases "k \<in> set (map fst obj)")
  case True
  have "map_of (map (\<lambda>(a, b). if a = k then (a, v) else (a, b)) xs) k'
        = (if k' = k then (if k \<in> set (map fst xs) then Some v else None) else map_of xs k')" for xs
    by (induction xs) (auto simp: rev_image_eqI)
  with True show ?thesis by (simp add: getProp_def setProp_def)
next
  case False
  then have "map_of obj k = None" by (simp add: map_of_eq_None_iff)
  with False show ?thesis
    by (auto simp: getProp_def setProp_def map_add_def split: option.splits)
qed

lemma keys_setProp:
  "map fst (setProp obj k v) = (if k \<in> set (map fst obj) then map fst obj else map fst obj @ [k])"
proof -
  have "map fst (map (\<lambda>(a, b). if a = k then (a, v) else (a, b)) xs) = map fst xs" for xs
    by (induction xs) auto
  then show ?thesis by (simp add: setProp_def)
qed

lemma getProp_bump:
  "getProp (bump obj k) k' =
     (if k' = k then Some ((case getProp obj k of None \<Rightarrow> 0 | Some n \<Rightarrow> n) + 1) else getProp obj k')"
  by (simp add: bump_def getProp_setProp)

lemma keys_bump:
  "map fst (bump obj k) = (if k \<in> set (map fst obj) then map fst obj else map fst obj @ [k])"
  by (simp add: bump_def keys_setProp)

text \<open>An object with distinct keys is determined by its keys and its lookups.\<close>

lemma object_by_keys:
  "distinct (map fst obj) \<Longrightarrow> obj = map (\<lambda>k. (k, the (getProp obj k))) (map fst obj)"
proof (induction obj)
  case Nil
  then show ?case by simp
next
  case (Cons a obj)
  obtain k v where a: "a = (k, v)" by (cases a)
  from Cons.prems a have notin: "k \<notin> set (map fst obj)" and d: "distinct (map fst obj)" by auto
  have "map (\<lambda>k'. (k', the (getProp ((k, v) # obj) k'))) (map fst obj)
        = map (\<lambda>k'. (k', the (getProp obj k'))) (map fst obj)"
    using notin by (auto simp: getProp_def)
  with Cons.IH[OF d] a show ?case by (simp add: getProp_def)
qed

lemma objectEntries_plain:
  "\<forall>k \<in> set (map fst obj). \<not> isArrayIndex k \<Longrightarrow> objectEntries obj = obj"
proof -
  assume a: "\<forall>k \<in> set (map fst obj). \<not> isArrayIndex k"
  then have "filter (\<lambda>(k, v). isArrayIndex k) obj = []"
    by (auto simp: filter_empty_conv)
  moreover from a have "filter (\<lambda>(k, v). \<not> isArrayIndex k) obj = obj"
    by (auto simp: filter_id_conv)
  ultimately show ?thesis by (simp add: objectEntries_def)
qed

lemma getProp_fold_bump:
  "getProp (foldl bump obj ks) k =
     (case getProp obj k of
        None \<Rightarrow> (if k \<in> set ks then Some (count_list ks k) else None)
      | Some n \<Rightarrow> Some (n + count_list ks k))"
  by (induction ks arbitrary: obj) (auto simp: getProp_bump split: option.splits)

lemma keys_fold_bump_sub:
  "set ks \<subseteq> set (map fst obj) \<Longrightarrow> map fst (foldl bump obj ks) = map fst obj"
proof (induction ks arbitrary: obj)
  case Nil
  then show ?case by simp
next
  case (Cons a ks)
  from Cons.prems have k: "map fst (bump obj a) = map fst obj"
    by (simp add: keys_bump del: set_map)
  with Cons.prems have "set ks \<subseteq> set (map fst (bump obj a))" by simp
  from Cons.IH[OF this] k show ?case by simp
qed

lemma count_list_length: "count_list (map f xs) y = length (filter (\<lambda>x. f x = y) xs)"
  by (induction xs) auto

section \<open>Post types\<close>

lemma countPostType_bump: "countPostType tc p = bump tc (postCategory p)"
  by (auto simp: countPostType_def postCategory_def Let_def split: option.splits list.splits)

lemma foldl_countPostType:
  "foldl countPostType tc ps = foldl bump tc (map postCategory ps)"
  by (induction ps arbitrary: tc) (simp_all add: countPostType_bump)

lemma postCategory_names: "postCategory p \<in> set postTypeNames"
  by (simp add: postCategory_def postTypeNames_def Let_def split: option.splits list.splits)

lemma keys_initialTypeCounts: "map fst initialTypeCounts = postTypeNames"
  by (simp add: initialTypeCounts_def postTypeNames_def)

lemma postTypeNames_plain: "k \<in> set postTypeNames \<Longrightarrow> \<not> isArrayIndex k"
  by (auto simp: postTypeNames_def isArrayIndex_def isDigit_def)

text \<open>After the loop every one of the five counters holds the number of posts of its
  category.\<close>

lemma typeCounts_final:
  "foldl countPostType initialTypeCounts ps =
     map (\<lambda>name. (name, length (filter (\<lambda>p. postCategory p = name) ps))) postTypeNames"
proof -
  let ?obj = "foldl bump initialTypeCounts (map postCategory ps)"
  have keys: "map fst ?obj = postTypeNames"
    using keys_fold_bump_sub[of "map postCategory ps" initialTypeCounts] postCategory_names
    by (auto simp: keys_initialTypeCounts)
  have d: "distinct (map fst ?obj)" unfolding keys by (simp add: postTypeNames_def)
  have v: "getProp ?obj k = Some (length (filter (\<lambda>p. postCategory p = k) ps))"
    if "k \<in> set postTypeNames" for k
  proof -
    from that have "getProp initialTypeCounts k = Some 0"
      by (auto simp: postTypeNames_def initialTypeCounts_def getProp_def)
    then show ?thesis by (simp add: getProp_fold_bump count_list_length)
  qed
  have "?obj = map (\<lambda>k. (k, the (getProp ?obj k))) postTypeNames"
    using object_by_keys[OF d] keys by simp
  also have "\<dots> = map (\<lambda>name. (name, length (filter (\<lambda>p. postCategory p = name) ps))) postTypeNames"
    by (rule map_cong) (simp_all add: v)
  finally show ?thesis by (simp add: foldl_countPostType)
qed

lemma breakdown_counts:
  "calculatePostTypesBreakdown changelogData =
     filter (\<lambda>(name, count). count > 0)
       (map (\<lambda>name. (name, length (filter (\<lambda>p. postCategory p = name) (userPosts changelogData))))
          postTypeNames)"
proof -
  let ?obj = "foldl countPostType initialTypeCounts (userPosts changelogData)"
  have "map fst ?obj = postTypeNames" by (simp add: typeCounts_final comp_def)
  then have "objectEntries ?obj = ?obj"
    by (intro objectEntries_plain) (auto dest: postTypeNames_plain)
  then show ?thesis
    by (simp add: calculatePostTypesBreakdown_def typeCounts_final)
qed

text \<open>
  Claim C4, as stated, at a post whose first media item declares no type: the stated
  rule sends it to External Link (the absent type contains neither \<open>VIDEO\<close> nor
  \<open>IMAGE\<close>), the breakdown counts it as Image.
\<close>

theorem postTypes_untyped_media_counterexample:
  "claimedCategory
     \<lparr>resourceName = ''ugcPosts'', method' = ''CREATE'', capturedAt = 0, actor = None,
      owner = None, resourceId = ''urn:li:ugcPost:1'',
      activity = Some \<lparr>object = None, specificContent = Some \<lparr>ShareContent = Some
        \<lparr>media = Some [\<lparr>mediaType = None\<rparr>], shareCommentary = None\<rparr>\<rparr>\<rparr>\<rparr>
     = ''External Link''
   \<and> calculatePostTypesBreakdown (Some \<lparr>elements = Some
     [\<lparr>resourceName = ''ugcPosts'', method' = ''CREATE'', capturedAt = 0, actor = None,
       owner = None, resourceId = ''urn:li:ugcPost:1'',
       activity = Some \<lparr>object = None, specificContent = Some \<lparr>ShareContent = Some
         \<lparr>media = Some [\<lparr>mediaType = None\<rparr>], shareCommentary = None\<rparr>\<rparr>\<rparr>\<rparr>]\<rparr>)
     = [(''Image'', 1)]"
  by code_simp

text \<open>
  Claim C4, amended: every post-creation event has exactly one of the five categories,
  given by \<open>postCategory\<close> (the stated rule, with a missing or empty type of the
  first media item read as \<open>IMAGE\<close>), and the breakdown lists, in the fixed order of
  the five names, each category with the number of post-creation events in it, leaving
  out the categories whose number is zero.
\<close>

theorem postTypes_breakdown_by_rule:
  "calculatePostTypesBreakdown changelogData =
     filter (\<lambda>(name, count). count > 0)
       (map (\<lambda>name. (name, length (filter (\<lambda>p. postCategory p = name) (userPosts changelogData))))
          postTypeNames)
   \<and> (\<forall>p. postCategory p \<in> set postTypeNames)
   \<and> userPosts changelogData =
       filter (\<lambda>e. resourceName e = ''ugcPosts'' \<and> method' e = ''CREATE'')
         (changelogElements changelogData)"
  by (simp add: breakdown_counts postCategory_names userPosts_def isCreate_def[abs_def])

text \<open>
  Claim C10: the category Article never appears in the post-types breakdown, whatever
  the changelog: no post is classified as Article, so its counter stays zero and the
  filter on positive counts removes it.
\<close>

theorem article_never_reported:
  "''Article'' \<notin> fst ` set (calculatePostTypesBreakdown changelogData)"
proof -
  have "postCategory p \<noteq> ''Article''" for p
    by (simp add: postCategory_def Let_def split: option.splits list.splits)
  then have "length (filter (\<lambda>p. postCategory p = ''Article'') (userPosts changelogData)) = 0"
    by simp
  then show ?thesis
    unfolding breakdown_counts postTypeNames_def by auto
qed

section \<open>Tallies and ranked outputs\<close>

lemma firstSeen_snoc:
  "firstSeen (xs @ [x]) = (if x \<in> set xs then firstSeen xs else firstSeen xs @ [x])"
  by (simp add: firstSeen_def)

lemma set_firstSeen: "set (firstSeen xs) = set xs"
  by (simp add: firstSeen_def)

lemma distinct_firstSeen: "distinct (firstSeen xs)"
  by (simp add: firstSeen_def)

lemma keys_fold_bump_empty: "map fst (foldl bump [] ks) = firstSeen ks"
proof (induction ks rule: rev_induct)
  case Nil
  then show ?case by (simp add: firstSeen_def)
next
  case (snoc k ks)
  then show ?case
    by (simp add: keys_bump firstSeen_snoc set_firstSeen del: set_map)
qed

lemma fold_bump_empty: "foldl bump [] ks = firstSeenCounts ks"
proof -
  let ?obj = "foldl bump [] ks"
  have d: "distinct (map fst ?obj)" by (simp add: keys_fold_bump_empty distinct_firstSeen)
  have "?obj = map (\<lambda>k. (k, the (getProp ?obj k))) (firstSeen ks)"
    using object_by_keys[OF d] by (simp add: keys_fold_bump_empty)
  also have "\<dots> = map (\<lambda>k. (k, count_list ks k)) (firstSeen ks)"
  proof (rule map_cong)
    fix k assume "k \<in> set (firstSeen ks)"
    then have "k \<in> set ks" by (simp add: set_firstSeen)
    moreover have "getProp ([] :: nat jsobject) k = None" by (simp add: getProp_def)
    ultimately show "(k, the (getProp ?obj k)) = (k, count_list ks k)"
      by (simp add: getProp_fold_bump)
  qed simp
  finally show ?thesis by (simp add: firstSeenCounts_def)
qed

lemma fold_countHashtags:
  "foldl countHashtags obj ss = foldl bump obj (concat (map matchHashtags ss))"
  by (induction ss arbitrary: obj) (simp_all add: countHashtags_def)

lemma hashtagCounts_eq:
  "hashtagCounts postsData changelogData = firstSeenCounts (allHashtags postsData changelogData)"
  by (simp add: hashtagCounts_def fold_countHashtags allHashtags_def fold_bump_empty[symmetric]
      comp_def)

text \<open>Every match is a \<open>#\<close> followed by at least one word character.\<close>

lemma matchHashtags_shape:
  "t \<in> set (matchHashtags s) \<Longrightarrow>
     \<exists>w. t = CHR ''#'' # w \<and> w \<noteq> [] \<and> (\<forall>c \<in> set w. isWordChar c)"
proof (induction s rule: matchHashtags.induct)
  case 1
  then show ?case by simp
next
  case (2 c cs)
  show ?case
  proof (cases "c = CHR ''#'' \<and> takeWhile isWordChar cs \<noteq> []")
    case True
    with 2 show ?thesis by (auto dest: set_takeWhileD)
  next
    case False
    with 2 show ?thesis by auto
  qed
qed

lemma hashtag_not_index: "\<not> isArrayIndex (CHR ''#'' # w)"
  by (simp add: isArrayIndex_def isDigit_def)

lemma allHashtags_plain: "k \<in> set (allHashtags postsData changelogData) \<Longrightarrow> \<not> isArrayIndex k"
  by (auto simp: allHashtags_def hashtag_not_index dest!: matchHashtags_shape)

lemma topHashtags_eq:
  "calculateTopHashtags postsData changelogData =
     topTen (firstSeenCounts (allHashtags postsData changelogData))"
proof -
  have "objectEntries (firstSeenCounts (allHashtags postsData changelogData))
        = firstSeenCounts (allHashtags postsData changelogData)"
    by (rule objectEntries_plain)
       (auto simp: firstSeenCounts_def set_firstSeen comp_def dest: allHashtags_plain)
  then show ?thesis by (simp add: calculateTopHashtags_def hashtagCounts_eq)
qed






lemma topTen_Nil: "topTen [] = []"
  by (simp add: topTen_def sortDescending_def)

lemma objectEntries_Nil: "objectEntries [] = []"
  by (simp add: objectEntries_def)

lemma firstSeenCounts_Nil: "firstSeenCounts [] = []"
  by (simp add: firstSeenCounts_def firstSeen_def)




text \<open>
  Claim C8: the top hashtags are the first ten, by count, of the hashtags of the
  snapshot posts and of the changelog posts taken together, and the count reported
  with a hashtag is the number of its occurrences in all those commentaries, repeated
  occurrences within one post included.
\<close>

theorem topHashtags_count_occurrences:
  "calculateTopHashtags postsData changelogData
     = topTen (firstSeenCounts (allHashtags postsData changelogData))
   \<and> (\<forall>(h, c) \<in> set (calculateTopHashtags postsData changelogData).
         c = count_list (allHashtags postsData changelogData) h)"
proof -
  have sub: "set (topTen es) \<subseteq> set es" for es :: "(string \<times> nat) list"
    by (auto simp: topTen_def sortDescending_def dest: in_set_takeD)
  have "c = count_list (allHashtags postsData changelogData) h"
    if "(h, c) \<in> set (topTen (firstSeenCounts (allHashtags postsData changelogData)))" for h c
  proof -
    from that sub have "(h, c) \<in> set (firstSeenCounts (allHashtags postsData changelogData))"
      by blast
    then show ?thesis by (auto simp: firstSeenCounts_def)
  qed
  then show ?thesis
    by (auto simp: topHashtags_eq)
qed

text \<open>C8 at a snapshot post with \<open>#ai\<close> twice and a changelog post with it once.\<close>

theorem topHashtags_count_occurrences_witness:
  "(''#ai'', 3) \<in> set (calculateTopHashtags
       (Some \<lparr>snapshotElements = Some [\<lparr>snapshotData = Some
          [\<lparr>ShareCommentary = Some ''#ai and #ml, again #ai''\<rparr>]\<rparr>]\<rparr>)
       (Some \<lparr>elements = Some
          [\<lparr>resourceName = ''ugcPosts'', method' = ''CREATE'', capturedAt = 0, actor = None,
            owner = None, resourceId = ''urn:li:ugcPost:1'',
            activity = Some \<lparr>object = None, specificContent = Some \<lparr>ShareContent = Some
              \<lparr>media = None, shareCommentary = Some \<lparr>text' = Some ''new post #ai''\<rparr>\<rparr>\<rparr>\<rparr>\<rparr>]\<rparr>))
   \<and> count_list (allHashtags
       (Some \<lparr>snapshotElements = Some [\<lparr>snapshotData = Some
          [\<lparr>ShareCommentary = Some ''#ai and #ml, again #ai''\<rparr>]\<rparr>]\<rparr>)
       (Some \<lparr>elements = Some
          [\<lparr>resourceName = ''ugcPosts'', method' = ''CREATE'', capturedAt = 0, actor = None,
            owner = None, resourceId = ''urn:li:ugcPost:1'',
            activity = Some \<lparr>object = None, specificContent = Some \<lparr>ShareContent = Some
              \<lparr>media = None, shareCommentary = Some \<lparr>text' = Some ''new post #ai''\<rparr>\<rparr>\<rparr>\<rparr>\<rparr>]\<rparr>))
       ''#ai'' = 3"
proof -
  let ?P = "Some \<lparr>snapshotElements = Some [\<lparr>snapshotData = Some
          [\<lparr>ShareCommentary = Some ''#ai and #ml, again #ai''\<rparr>]\<rparr>]\<rparr>"
  let ?C = "Some \<lparr>elements = Some
          [\<lparr>resourceName = ''ugcPosts'', method' = ''CREATE'', capturedAt = 0, actor = None,
            owner = None, resourceId = ''urn:li:ugcPost:1'',
            activity = Some \<lparr>object = None, specificContent = Some \<lparr>ShareContent = Some
              \<lparr>media = None, shareCommentary = Some \<lparr>text' = Some ''new post #ai''\<rparr>\<rparr>\<rparr>\<rparr>\<rparr>]\<rparr>"
  have m: "(''#ai'', 3) \<in> set (calculateTopHashtags ?P ?C)" by code_simp
  from topHashtags_count_occurrences[of ?P ?C] m
  have "3 = count_list (allHashtags ?P ?C) ''#ai''" by blast
  with m show ?thesis by simp
qed

section \<open>Day buckets of the engagement trend\<close>

lemma setDate_back: "setDate t (getDate t - i) = t - i * msPerDay"
  by (simp add: setDate_def algebra_simps)

lemma setDate_next: "setDate t (getDate t + 1) = t + msPerDay"
  by (simp add: setDate_def)


lemma findIndex_Some: "findIndex P xs = Some k \<Longrightarrow> k < length xs \<and> P (xs ! k)"
  by (induction xs arbitrary: k) (auto split: if_splits)

lemma findIndex_map: "findIndex (\<lambda>x. P (f x)) xs = findIndex P (map f xs)"
  by (induction xs) auto


lemma length_rangeTimes: "length (rangeTimes now days) = days"
  by (simp add: rangeTimes_def)

lemma nth_rangeTimes:
  "k < days \<Longrightarrow> rangeTimes now days ! k = now - int (days - 1 - k) * msPerDay"
  by (simp add: rangeTimes_def rev_nth)

lemma trendDateRange_map:
  "trendDateRange now days =
     map (\<lambda>t. \<lparr>date = toShortDate t, posts = 0, likes = 0, comments = 0, shares = 0\<rparr>)
       (rangeTimes now days)"
  by (induction days) (simp_all add: rangeTimes_def setDate_back)

lemma trendDateRange_dates:
  "map date (trendDateRange now days) = map toShortDate (rangeTimes now days)"
  by (simp add: trendDateRange_map comp_def)

lemma countActivity_dates: "map date (countActivity bs e) = map date bs"
  by (auto simp: countActivity_def Let_def map_update list_update_same_conv
      dest!: findIndex_Some split: option.splits)

lemma foldl_countActivity_dates: "map date (foldl countActivity bs es) = map date bs"
  by (induction es arbitrary: bs) (simp_all add: countActivity_dates)

lemma countActivity_nth:
  assumes "k < length bs" and "map date bs = map toShortDate (rangeTimes now days)"
  shows "posts (countActivity bs e ! k) = posts (bs ! k) + countIn now days k ''ugcPosts'' [e]"
    and "likes (countActivity bs e ! k) = likes (bs ! k) + countIn now days k ''socialActions/likes'' [e]"
    and "comments (countActivity bs e ! k) = comments (bs ! k) + countIn now days k ''socialActions/comments'' [e]"
    and "shares (countActivity bs e ! k) = shares (bs ! k) + countIn now days k ''socialActions/shares'' [e]"
  using assms(1)
  by (auto simp: countActivity_def Let_def countIn_def inBucket_def trendBucketOf_def isCreate_def
      nth_list_update assms(2)[symmetric]
      findIndex_map[of "\<lambda>l. l = toShortDate (capturedAt e)" date, symmetric]
      dest!: findIndex_Some split: option.splits)

lemma countIn_Cons:
  "countIn now days k name (e # es) = countIn now days k name [e] + countIn now days k name es"
  by (simp add: countIn_def)

lemma foldl_countActivity_nth:
  assumes "k < length bs" and "map date bs = map toShortDate (rangeTimes now days)"
  shows "posts (foldl countActivity bs es ! k) = posts (bs ! k) + countIn now days k ''ugcPosts'' es
    \<and> likes (foldl countActivity bs es ! k) = likes (bs ! k) + countIn now days k ''socialActions/likes'' es
    \<and> comments (foldl countActivity bs es ! k) = comments (bs ! k) + countIn now days k ''socialActions/comments'' es
    \<and> shares (foldl countActivity bs es ! k) = shares (bs ! k) + countIn now days k ''socialActions/shares'' es"
  using assms
proof (induction es arbitrary: bs)
  case Nil
  then show ?case by (simp add: countIn_def)
next
  case (Cons e es)
  have len: "k < length (countActivity bs e)"
    using Cons.prems(1) countActivity_dates[of bs e] by (metis length_map)
  have dates: "map date (countActivity bs e) = map toShortDate (rangeTimes now days)"
    using Cons.prems(2) by (simp add: countActivity_dates)
  from Cons.IH[OF len dates] countActivity_nth[OF Cons.prems, of e]
  show ?case by (simp add: countIn_Cons[of now days k _ e es])
qed

lemma length_trendBuckets: "length (trendBuckets cl tr now) = rangeDays tr"
proof -
  have "length (map date (trendBuckets cl tr now)) = length (map toShortDate (rangeTimes now (rangeDays tr)))"
    unfolding trendBuckets_def foldl_countActivity_dates trendDateRange_dates ..
  then show ?thesis by (simp add: length_rangeTimes)
qed

text \<open>Bucket \<open>k\<close> of the range after the counting loop.\<close>

lemma trendBuckets_nth:
  assumes "k < rangeDays tr"
  shows "trendBuckets cl tr now ! k =
     \<lparr>date = toShortDate (now - int (rangeDays tr - 1 - k) * msPerDay),
      posts = countIn now (rangeDays tr) k ''ugcPosts'' (changelogElements cl),
      likes = countIn now (rangeDays tr) k ''socialActions/likes'' (changelogElements cl),
      comments = countIn now (rangeDays tr) k ''socialActions/comments'' (changelogElements cl),
      shares = countIn now (rangeDays tr) k ''socialActions/shares'' (changelogElements cl)\<rparr>"
proof -
  let ?bs = "trendDateRange now (rangeDays tr)"
  have len: "k < length ?bs" using assms by (simp add: trendDateRange_map length_rangeTimes)
  have z: "posts (?bs ! k) = 0 \<and> likes (?bs ! k) = 0 \<and> comments (?bs ! k) = 0 \<and> shares (?bs ! k) = 0"
    using assms by (simp add: trendDateRange_map length_rangeTimes)
  have "date (trendBuckets cl tr now ! k) = map date (trendBuckets cl tr now) ! k"
    using assms by (simp add: length_trendBuckets)
  also have "\<dots> = toShortDate (now - int (rangeDays tr - 1 - k) * msPerDay)"
    using assms
    by (simp add: trendBuckets_def foldl_countActivity_dates trendDateRange_dates
        length_rangeTimes nth_rangeTimes)
  finally have d: "date (trendBuckets cl tr now ! k) = toShortDate (now - int (rangeDays tr - 1 - k) * msPerDay)" .
  from foldl_countActivity_nth[OF len trendDateRange_dates, of "changelogElements cl"] z d
  show ?thesis
    by (simp add: trendBuckets_def)
qed

lemma trend_length: "length (calculatePostsEngagementsTrend cl tr now) = rangeDays tr"
  by (simp add: calculatePostsEngagementsTrend_def length_trendBuckets)

lemma trend_dates:
  "map (\<lambda>entry. getProp entry ''date'') (calculatePostsEngagementsTrend cl tr now)
     = map (\<lambda>t. Some (Str (toShortDate t))) (rangeTimes now (rangeDays tr))"
proof -
  have "map (\<lambda>entry. getProp entry ''date'') (calculatePostsEngagementsTrend cl tr now)
        = map (\<lambda>l. Some (Str l)) (map date (trendBuckets cl tr now))"
    by (simp add: calculatePostsEngagementsTrend_def trendPoint_def getProp_def comp_def)
  then show ?thesis
    by (simp add: trendBuckets_def foldl_countActivity_dates trendDateRange_dates comp_def)
qed

text \<open>
  Claim C2, amended: the trend has one entry per day of the range, and the entry of day
  \<open>k\<close> carries the properties \<open>date\<close>, \<open>posts\<close>, \<open>likes\<close>, \<open>comments\<close> and
  \<open>totalEngagement\<close>, in this order and no others: the numbers of post creations, of
  likes and of comments counted in that day's bucket, and as \<open>totalEngagement\<close> the sum
  of the likes, comments and shares counted there. The shares are counted during the
  accumulation but not returned on their own.
\<close>

theorem trend_entry:
  "k < rangeDays tr \<Longrightarrow>
     length (calculatePostsEngagementsTrend cl tr now) = rangeDays tr
     \<and> calculatePostsEngagementsTrend cl tr now ! k =
         [(''date'', Str (toShortDate (now - int (rangeDays tr - 1 - k) * msPerDay))),
          (''posts'', Num (countIn now (rangeDays tr) k ''ugcPosts'' (changelogElements cl))),
          (''likes'', Num (countIn now (rangeDays tr) k ''socialActions/likes'' (changelogElements cl))),
          (''comments'', Num (countIn now (rangeDays tr) k ''socialActions/comments'' (changelogElements cl))),
          (''totalEngagement'',
             Num (countIn now (rangeDays tr) k ''socialActions/likes'' (changelogElements cl)
                  + countIn now (rangeDays tr) k ''socialActions/comments'' (changelogElements cl)
                  + countIn now (rangeDays tr) k ''socialActions/shares'' (changelogElements cl)))]"
  by (simp add: calculatePostsEngagementsTrend_def length_trendBuckets trendBuckets_nth
      trendPoint_def)

text \<open>C2 at the sample request: the last of the seven days, with two likes and a share.\<close>

theorem trend_entry_witness:
  "(6::nat) < rangeDays ''7d''
   \<and> calculatePostsEngagementsTrend sampleChangelog ''7d'' sampleNow ! 6 =
       [(''date'', Str ''Nov 2''), (''posts'', Num 0), (''likes'', Num 2),
        (''comments'', Num 0), (''totalEngagement'', Num 3)]"
proof -
  have h: "(6::nat) < rangeDays ''7d''" by (simp add: rangeDays_def)
  have v: "[(''date'', Str (toShortDate (sampleNow - int (rangeDays ''7d'' - 1 - 6) * msPerDay))),
          (''posts'', Num (countIn sampleNow (rangeDays ''7d'') 6 ''ugcPosts'' (changelogElements sampleChangelog))),
          (''likes'', Num (countIn sampleNow (rangeDays ''7d'') 6 ''socialActions/likes'' (changelogElements sampleChangelog))),
          (''comments'', Num (countIn sampleNow (rangeDays ''7d'') 6 ''socialActions/comments'' (changelogElements sampleChangelog))),
          (''totalEngagement'',
             Num (countIn sampleNow (rangeDays ''7d'') 6 ''socialActions/likes'' (changelogElements sampleChangelog)
                  + countIn sampleNow (rangeDays ''7d'') 6 ''socialActions/comments'' (changelogElements sampleChangelog)
                  + countIn sampleNow (rangeDays ''7d'') 6 ''socialActions/shares'' (changelogElements sampleChangelog)))]
     = [(''date'', Str ''Nov 2''), (''posts'', Num 0), (''likes'', Num 2),
        (''comments'', Num 0), (''totalEngagement'', Num 3)]"
    by code_simp
  from trend_entry[OF h, of sampleChangelog sampleNow] v h show ?thesis by simp
qed

text \<open>
  Claim C2, as stated, at the sample request: the entry of the day on which a share was
  captured has no property \<open>shares\<close>.
\<close>

theorem trend_shares_counterexample:
  "map fst (calculatePostsEngagementsTrend sampleChangelog ''7d'' sampleNow ! 6)
     = [''date'', ''posts'', ''likes'', ''comments'', ''totalEngagement'']
   \<and> getProp (calculatePostsEngagementsTrend sampleChangelog ''7d'' sampleNow ! 6) ''shares'' = None"
  by code_simp

section \<open>Day buckets of the messages\<close>

lemma messageDays_map:
  "messageDays now n =
     map (\<lambda>t. \<lparr>messageDay = dayOf t, sent = 0, received = 0\<rparr>) (rangeTimes now n)"
  by (induction n) (simp_all add: rangeTimes_def setDate_back toLocaleDateString_def)




lemma countMessage_days: "map messageDay (countMessage uid bs m) = map messageDay bs"
  by (auto simp: countMessage_def Let_def map_update list_update_same_conv
      dest!: findIndex_Some split: option.splits)


lemma foldl_countMessage_days: "map messageDay (foldl (countMessage uid) bs ms) = map messageDay bs"
  by (induction ms arbitrary: bs) (simp_all add: countMessage_days)



lemma length_messageBuckets: "length (messageBuckets cl now) = 30"
proof -
  have "length (map messageDay (messageBuckets cl now)) = length (map messageDay (messageDateRange now))"
    unfolding messageBuckets_def Let_def foldl_countMessage_days ..
  then show ?thesis by (simp add: messageDateRange_def messageDays_map length_rangeTimes)
qed




section \<open>Connections growth\<close>

lemma growthLoop_stop: "e < d \<Longrightarrow> growthLoop p cs d e c = []"
  by (subst growthLoop.simps) simp

lemma growthLoop_step:
  "d \<le> e \<Longrightarrow> growthLoop p cs d e c =
     \<lparr>growthDate = toShortDate d,
      totalConnections = c + length (filter (\<lambda>conn. map_option toLocaleDateString (connectTime p conn) = Some (toLocaleDateString d)) cs),
      newConnections = length (filter (\<lambda>conn. map_option toLocaleDateString (connectTime p conn) = Some (toLocaleDateString d)) cs)\<rparr>
     # growthLoop p cs (d + msPerDay) e
         (c + length (filter (\<lambda>conn. map_option toLocaleDateString (connectTime p conn) = Some (toLocaleDateString d)) cs))"
  by (subst growthLoop.simps) (simp add: Let_def setDate_next)

lemma rangeTimes_Suc: "rangeTimes e (Suc n) = (e - int n * msPerDay) # rangeTimes e n"
  by (simp add: rangeTimes_def)

lemma growthLoop_same_reading:
  "map growthDate (growthLoop p cs (e - int n * msPerDay) e c) = map toShortDate (rangeTimes e (Suc n))"
proof (induction n arbitrary: c)
  case 0
  have "e < e + msPerDay" by (simp add: msPerDay_def)
  then show ?case
    by (simp add: growthLoop_step[of e e] growthLoop_stop rangeTimes_def)
next
  case (Suc n)
  have le: "e - int (Suc n) * msPerDay \<le> e" by (simp add: msPerDay_def)
  have nxt: "e - int (Suc n) * msPerDay + msPerDay = e - int n * msPerDay"
    by (simp add: algebra_simps)
  show ?case
    unfolding growthLoop_step[OF le] nxt rangeTimes_Suc[of e "Suc n"]
    using Suc.IH by simp
qed

lemma growthLoop_later_reading:
  assumes "e < s" and "s < e + msPerDay"
  shows "map growthDate (growthLoop p cs (s - int n * msPerDay) e c)
           = map toShortDate (rangeTimes (s - msPerDay) n)"
proof (induction n arbitrary: c)
  case 0
  from assms(1) show ?case by (simp add: growthLoop_stop rangeTimes_def)
next
  case (Suc n)
  have "0 \<le> int n * msPerDay" by (simp add: msPerDay_def)
  with assms(2) have le: "s - int (Suc n) * msPerDay \<le> e" by (simp add: algebra_simps)
  have nxt: "s - int (Suc n) * msPerDay + msPerDay = s - int n * msPerDay"
    by (simp add: algebra_simps)
  have hd: "s - msPerDay - int n * msPerDay = s - int (Suc n) * msPerDay"
    by (simp add: algebra_simps)
  show ?case
    unfolding growthLoop_step[OF le] nxt rangeTimes_Suc[of "s - msPerDay" n] hd
    using Suc.IH by simp
qed

lemma growthLoop_no_rows:
  "cs = [] \<Longrightarrow> c = 0 \<Longrightarrow>
     \<forall>g \<in> set (growthLoop p cs d e c). totalConnections g = 0 \<and> newConnections g = 0"
proof (induction p cs d e c rule: growthLoop.induct)
  case (1 p cs d e c)
  show ?case
  proof (cases "d \<le> e")
    case True
    from "1.IH"[OF True refl refl refl] "1.prems"
    have "\<forall>g \<in> set (growthLoop p [] (d + msPerDay) e 0). totalConnections g = 0 \<and> newConnections g = 0"
      by (simp add: setDate_next)
    with "1.prems" show ?thesis
      by (simp add: growthLoop_step[OF True])
  next
    case False
    then show ?thesis by (simp add: growthLoop_stop)
  qed
qed

text \<open>When both clock readings fall in the same millisecond the loop runs from the day
  \<open>days\<close> before today up to today, both included.\<close>

lemma growth_dates_same_reading:
  "map growthDate (calculateConnectionsGrowth p cd tr now now)
     = map toShortDate (rangeTimes now (rangeDays tr + 1))"
  by (simp add: calculateConnectionsGrowth_def Let_def setDate_back growthLoop_same_reading
      del: rangeTimes_Suc)

text \<open>When the clock ticks between the two readings (on the same calendar day) the last
  date the loop reaches is later than \<open>endDate\<close>, and the series ends yesterday.\<close>

lemma growth_dates_later_reading:
  assumes "endNow < startNow" and "startNow < endNow + msPerDay"
    and "getDate endNow = getDate startNow"
  shows "map growthDate (calculateConnectionsGrowth p cd tr endNow startNow)
     = map toShortDate (rangeTimes (startNow - msPerDay) (rangeDays tr))"
  using growthLoop_later_reading[OF assms(1,2)]
  by (simp add: calculateConnectionsGrowth_def Let_def assms(3) setDate_back)

text \<open>The trend (\<open>trend_length\<close>, \<open>trend_dates\<close>) and the messages have one entry per
  day of their range, oldest first, ending today.\<close>

lemma messages_days:
  "length (calculateMessagesSentReceived cl now) = 30
   \<and> map messageDate (calculateMessagesSentReceived cl now)
       = map (\<lambda>t. toShortDate (dayOf t * msPerDay)) (rangeTimes now 30)"
proof -
  have "map messageDay (messageBuckets cl now) = map dayOf (rangeTimes now 30)"
    by (simp add: messageBuckets_def Let_def foldl_countMessage_days messageDateRange_def
        messageDays_map comp_def)
  then have "map (\<lambda>d. toShortDate (d * msPerDay)) (map messageDay (messageBuckets cl now))
      = map (\<lambda>d. toShortDate (d * msPerDay)) (map dayOf (rangeTimes now 30))"
    by simp
  then show ?thesis
    by (simp add: calculateMessagesSentReceived_def length_messageBuckets messagePoint_def
        parseLocaleDate_def comp_def)
qed

text \<open>
  Claim C1 says that the connections growth has 7, 30 or 90 entries, as the engagement
  trend has. With the two clock readings equal, as they are when \<open>endDate\<close> and
  \<open>startDate\<close> are created in the same millisecond, the growth series has one entry
  more: the days from \<open>days\<close> days ago to today, 8 entries for the range \<open>7d\<close>.
\<close>

theorem growth_has_one_entry_more:
  "length (calculateConnectionsGrowth parseDate connectionsData tr now now) = rangeDays tr + 1
   \<and> map growthDate (calculateConnectionsGrowth parseDate connectionsData tr now now)
       = map toShortDate (rangeTimes now (rangeDays tr + 1))
   \<and> length (calculateConnectionsGrowth (\<lambda>s. None) None ''7d'' sampleNow sampleNow) = 8"
proof -
  have d: "map growthDate (calculateConnectionsGrowth p cd r t t)
       = map toShortDate (rangeTimes t (rangeDays r + 1))" for p cd r t
    by (rule growth_dates_same_reading)
  have l: "length (calculateConnectionsGrowth p cd r t t) = rangeDays r + 1" for p cd r t
    using arg_cong[OF d[of p cd r t], of length] by (simp add: length_rangeTimes)
  show ?thesis using d l[of parseDate connectionsData tr now] l[of "\<lambda>s. None" None "''7d''" sampleNow]
    by (simp add: rangeDays_def)
qed

section \<open>Engagement per post\<close>


















section \<open>Empty input and the handler\<close>

lemma trend_empty:
  "changelogElements cl = [] \<Longrightarrow>
     calculatePostsEngagementsTrend cl tr now = map zeroTrendPoint (rangeTimes now (rangeDays tr))"
  by (simp add: calculatePostsEngagementsTrend_def trendBuckets_def trendDateRange_map
      trendPoint_def zeroTrendPoint_def comp_def)

lemma growthLoop_no_rows_same_reading:
  "growthLoop p [] (e - int n * msPerDay) e 0 = map zeroGrowthPoint (rangeTimes e (Suc n))"
proof (induction n)
  case 0
  have "e < e + msPerDay" by (simp add: msPerDay_def)
  then show ?case
    by (simp add: growthLoop_step[of e e] growthLoop_stop rangeTimes_def zeroGrowthPoint_def)
next
  case (Suc n)
  have le: "e - int (Suc n) * msPerDay \<le> e" by (simp add: msPerDay_def)
  have nxt: "e - int (Suc n) * msPerDay + msPerDay = e - int n * msPerDay"
    by (simp add: algebra_simps)
  show ?case
    unfolding growthLoop_step[OF le] nxt rangeTimes_Suc[of e "Suc n"]
    using Suc.IH by (simp add: zeroGrowthPoint_def)
qed

lemma sortedConnections_Nil: "sortedConnections p [] = []"
  by (simp add: sortedConnections_def)

lemma growth_empty:
  "snapshotRows cd = [] \<Longrightarrow>
     calculateConnectionsGrowth p cd tr now now = map zeroGrowthPoint (rangeTimes now (rangeDays tr + 1))"
  using growthLoop_no_rows_same_reading[of p now "rangeDays tr"]
  by (simp add: calculateConnectionsGrowth_def Let_def sortedConnections_Nil setDate_back)

lemma growth_empty_any_reading:
  "snapshotRows cd = [] \<Longrightarrow>
     \<forall>g \<in> set (calculateConnectionsGrowth p cd tr endNow startNow).
        totalConnections g = 0 \<and> newConnections g = 0"
  using growthLoop_no_rows[of "[]" 0 p]
  by (simp add: calculateConnectionsGrowth_def Let_def sortedConnections_Nil)

lemma breakdown_empty: "changelogElements cl = [] \<Longrightarrow> calculatePostTypesBreakdown cl = []"
  by (simp add: breakdown_counts userPosts_def postTypeNames_def)

lemma hashtags_empty:
  "snapshotRows pd = [] \<Longrightarrow> changelogElements cl = [] \<Longrightarrow> calculateTopHashtags pd cl = []"
  by (simp add: topHashtags_eq allHashtags_def userPosts_def firstSeenCounts_Nil topTen_Nil)

lemma engagement_empty: "changelogElements cl = [] \<Longrightarrow> calculateEngagementPerPost cl = []"
  by (simp add: calculateEngagementPerPost_def engagementMapOf_def userPosts_def objectValues_def
      objectEntries_Nil sortDescending_def)

lemma messages_empty:
  "changelogElements cl = [] \<Longrightarrow>
     calculateMessagesSentReceived cl now = map zeroMessagePoint (rangeTimes now 30)"
  by (simp add: calculateMessagesSentReceived_def messageBuckets_def recentMessages_def
      messageDateRange_def messageDays_map messagePoint_def zeroMessagePoint_def
      parseLocaleDate_def comp_def)

lemma audience_empty:
  "snapshotRows cd = [] \<Longrightarrow>
     calculateAudienceDistribution cd = \<lparr>industries = [], positions = [], locations = []\<rparr>"
  by (simp add: calculateAudienceDistribution_def tally_def topTen_Nil objectEntries_Nil)

lemma fetch_fails:
  "fetch (requestUrl endpoint domain extra) [(''Authorization'', auth), (''LinkedIn-Version'', ''202312'')] = Rejected
   \<Longrightarrow> fetchLinkedInData fetch auth endpoint domain extra = (None, requestUrl endpoint domain extra)"
  by (simp add: fetchLinkedInData_def Let_def)

lemma handler_unauthorized:
  "httpMethod ev \<noteq> ''OPTIONS'' \<Longrightarrow> \<not> truthy (authorization ev) \<Longrightarrow>
     handler ev fetch p now =
       (\<lparr>statusCode = 401, headers = [], body = Some (ErrorBody ''No authorization token'')\<rparr>, [])"
  by (simp add: handler_def)

lemma handler_authorized:
  "httpMethod ev \<noteq> ''OPTIONS'' \<Longrightarrow> truthy (authorization ev) \<Longrightarrow>
     statusCode (fst (handler ev fetch p now)) = 200
     \<and> (\<exists>a. body (fst (handler ev fetch p now)) = Some (AnalyticsBody a))
     \<and> length (snd (handler ev fetch p now)) = 6"
  by (simp add: handler_def Let_def split: prod.splits)

lemma handler_all_failed:
  assumes "httpMethod ev \<noteq> ''OPTIONS''" and "truthy (authorization ev)"
    and "\<forall>url hdrs. fetch url hdrs = Rejected"
  shows "fst (handler ev fetch p now) =
      \<lparr>statusCode = 200,
        headers = [(''Content-Type'', ''application/json''),
                   (''Access-Control-Allow-Origin'', ''*''),
                   (''Access-Control-Allow-Headers'', ''Content-Type, Authorization'')],
        body = Some (AnalyticsBody (emptyAnalytics (requestedTimeRange ev) now))\<rparr>"
proof -
  have f: "fetchLinkedInData fetch auth endpoint domain extra = (None, requestUrl endpoint domain extra)"
    for auth endpoint domain extra
    using assms(3) by (simp add: fetch_fails)
  have n: "changelogElements (asChangelog None) = []" "snapshotRows (asConnections None) = []"
    "snapshotRows (asPosts None) = []"
    by (simp_all add: asChangelog_def asConnections_def asPosts_def changelogElements_def
        snapshotRows_def)
  show ?thesis
    using assms(1,2)
    by (simp add: handler_def Let_def f emptyAnalytics_def requestedTimeRange_def
        trend_empty[OF n(1)] growth_empty[OF n(2)] breakdown_empty[OF n(1)]
        hashtags_empty[OF n(3) n(1)] engagement_empty[OF n(1)] messages_empty[OF n(1)]
        audience_empty[OF n(2)])
qed

text \<open>
  Claim C6, amended: a request whose method is not \<open>OPTIONS\<close> is answered with status
  401 and the body \<open>{error: "No authorization token"}\<close> exactly when the
  authorization header is absent or is the empty string, and then nothing is fetched
  and no aggregate is computed.
\<close>

theorem unauthorized_iff_no_token:
  "httpMethod ev \<noteq> ''OPTIONS'' \<Longrightarrow>
     ((fst (handler ev fetch p now) =
         \<lparr>statusCode = 401, headers = [], body = Some (ErrorBody ''No authorization token'')\<rparr>)
        = (authorization ev = None \<or> authorization ev = Some []))
     \<and> ((statusCode (fst (handler ev fetch p now)) = 401)
        = (authorization ev = None \<or> authorization ev = Some []))
     \<and> (authorization ev = None \<or> authorization ev = Some []
          \<longrightarrow> snd (handler ev fetch p now) = [])"
proof -
  assume m: "httpMethod ev \<noteq> ''OPTIONS''"
  have t: "(\<not> truthy (authorization ev)) = (authorization ev = None \<or> authorization ev = Some [])"
    by (cases "authorization ev") (simp_all add: truthy_def)
  show ?thesis
  proof (cases "truthy (authorization ev)")
    case True
    with handler_authorized[OF m True, of fetch p now] t show ?thesis by auto
  next
    case False
    with handler_unauthorized[OF m False, of fetch p now] t show ?thesis by simp
  qed
qed

text \<open>C6 at a request without the header.\<close>

theorem unauthorized_iff_no_token_witness:
  "httpMethod anonymousRequest \<noteq> ''OPTIONS''
   \<and> authorization anonymousRequest = None
   \<and> fst (handler anonymousRequest failingFetch (\<lambda>s. None) sampleNow) =
         \<lparr>statusCode = 401, headers = [], body = Some (ErrorBody ''No authorization token'')\<rparr>
   \<and> snd (handler anonymousRequest failingFetch (\<lambda>s. None) sampleNow) = []"
proof -
  have m: "httpMethod anonymousRequest \<noteq> ''OPTIONS''" by (simp add: anonymousRequest_def)
  have a: "authorization anonymousRequest = None" by (simp add: anonymousRequest_def)
  from unauthorized_iff_no_token[OF m, of failingFetch "\<lambda>s. None" sampleNow] m a
  show ?thesis by simp
qed

text \<open>
  Claim C6, as stated, at a request whose authorization header is present with the empty
  string as its value: the answer is 401 all the same.
\<close>

theorem empty_token_counterexample:
  "httpMethod emptyTokenRequest = ''GET''
   \<and> authorization emptyTokenRequest = Some []
   \<and> handler emptyTokenRequest failingFetch (\<lambda>s. None) sampleNow =
       (\<lparr>statusCode = 401, headers = [], body = Some (ErrorBody ''No authorization token'')\<rparr>, [])"
  by (simp add: emptyTokenRequest_def handler_def truthy_def)

text \<open>
  Claim C7: with \<open>null\<close> or an element-less payload in place of the changelog, the
  trend and the messages are the zero-filled day series and the post types and the
  engagement per post are empty; in place of the connections, the growth series is
  zero-filled and the audience distribution has three empty lists; in place of both the
  posts and the changelog, the top hashtags are empty. An authorized request is always
  answered with status 200 and an analytics body, and when every upstream fetch fails
  that body holds exactly these empty results.
\<close>

theorem empty_input_results:
  "(changelogElements cl = [] \<longrightarrow>
       calculatePostsEngagementsTrend cl tr now = map zeroTrendPoint (rangeTimes now (rangeDays tr))
     \<and> calculatePostTypesBreakdown cl = []
     \<and> calculateEngagementPerPost cl = []
     \<and> calculateMessagesSentReceived cl now = map zeroMessagePoint (rangeTimes now 30))
   \<and> (snapshotRows cd = [] \<longrightarrow>
       calculateConnectionsGrowth p cd tr now now
         = map zeroGrowthPoint (rangeTimes now (rangeDays tr + 1))
     \<and> (\<forall>g \<in> set (calculateConnectionsGrowth p cd tr endNow startNow).
           totalConnections g = 0 \<and> newConnections g = 0)
     \<and> calculateAudienceDistribution cd = \<lparr>industries = [], positions = [], locations = []\<rparr>)
   \<and> (snapshotRows pd = [] \<and> changelogElements cl = [] \<longrightarrow> calculateTopHashtags pd cl = [])
   \<and> (httpMethod ev \<noteq> ''OPTIONS'' \<and> truthy (authorization ev) \<longrightarrow>
       statusCode (fst (handler ev fetch p now)) = 200
     \<and> (\<exists>a. body (fst (handler ev fetch p now)) = Some (AnalyticsBody a)))
   \<and> (httpMethod ev \<noteq> ''OPTIONS'' \<and> truthy (authorization ev)
        \<and> (\<forall>url hdrs. fetch url hdrs = Rejected) \<longrightarrow>
       fst (handler ev fetch p now) =
         \<lparr>statusCode = 200,
          headers = [(''Content-Type'', ''application/json''),
                     (''Access-Control-Allow-Origin'', ''*''),
                     (''Access-Control-Allow-Headers'', ''Content-Type, Authorization'')],
          body = Some (AnalyticsBody (emptyAnalytics (requestedTimeRange ev) now))\<rparr>)"
  using trend_empty[of cl tr now] breakdown_empty[of cl] engagement_empty[of cl]
    messages_empty[of cl now] growth_empty[of cd p tr now]
    growth_empty_any_reading[of cd p tr endNow startNow] audience_empty[of cd]
    hashtags_empty[of pd cl] handler_authorized[of ev fetch p now]
    handler_all_failed[of ev fetch p now]
  by blast

text \<open>C7 at absent payloads and at the sample request over an upstream that always fails.\<close>

theorem empty_input_results_witness:
  "changelogElements None = []
   \<and> snapshotRows (None :: connection snapshot option) = []
   \<and> snapshotRows (None :: share_row snapshot option) = []
   \<and> httpMethod sampleRequest \<noteq> ''OPTIONS'' \<and> truthy (authorization sampleRequest)
   \<and> (\<forall>url hdrs. failingFetch url hdrs = Rejected)
   \<and> calculatePostsEngagementsTrend None ''7d'' sampleNow = map zeroTrendPoint (rangeTimes sampleNow 7)
   \<and> calculateTopHashtags None None = []
   \<and> calculateAudienceDistribution None = \<lparr>industries = [], positions = [], locations = []\<rparr>
   \<and> fst (handler sampleRequest failingFetch (\<lambda>s. None) sampleNow) =
         \<lparr>statusCode = 200,
          headers = [(''Content-Type'', ''application/json''),
                     (''Access-Control-Allow-Origin'', ''*''),
                     (''Access-Control-Allow-Headers'', ''Content-Type, Authorization'')],
          body = Some (AnalyticsBody (emptyAnalytics ''30d'' sampleNow))\<rparr>"
proof -
  have c: "changelogElements None = []" by (simp add: changelogElements_def)
  have s1: "snapshotRows (None :: connection snapshot option) = []" by (simp add: snapshotRows_def)
  have s2: "snapshotRows (None :: share_row snapshot option) = []" by (simp add: snapshotRows_def)
  have m: "httpMethod sampleRequest \<noteq> ''OPTIONS''" by (simp add: sampleRequest_def)
  have a: "truthy (authorization sampleRequest)" by (simp add: sampleRequest_def truthy_def)
  have f: "\<forall>url hdrs. failingFetch url hdrs = Rejected" by (simp add: failingFetch_def)
  have r: "requestedTimeRange sampleRequest = ''30d''"
    by (simp add: requestedTimeRange_def sampleRequest_def)
  have d: "rangeDays ''7d'' = 7" by (simp add: rangeDays_def)
  from empty_input_results[of None "''7d''" sampleNow None "\<lambda>s. None" sampleNow sampleNow None
      sampleRequest failingFetch] c s1 s2 m a f r d
  show ?thesis by simp
qed

end
